theory Spec2Isabelle
  imports Complex_Main
begin

section \<open>The pricing calculator of src/v2/script.js\<close>

text \<open>
  The development embeds \<^verbatim>\<open>initPricingCalculator\<close> (lines 241-349): the five rate
  tables of lines 263-301 and the closure \<^verbatim>\<open>calculate\<close> of lines 303-337, which
  reads four select elements and six checkboxes and writes five text nodes.

  Numbers. A JavaScript number is an IEEE 754 double, and the code is embedded twice.
  The first embedding (\<open>compute\<close>, \<open>calculate\<close>) computes with exact rationals: sums,
  products and differences carry no rounding error and no value overflows, and the three
  fractional rates of the source (0.10, 0.05, 0.03) are the rationals 1/10, 1/20 and
  3/100. It carries the algebraic properties. The second embedding (\<open>compute_ieee\<close>,
  \<open>calculate_ieee\<close>) follows the same lines of the source with the arithmetic of doubles:
  every literal and every result of \<^verbatim>\<open>+\<close>, \<^verbatim>\<open>-\<close> and \<^verbatim>\<open>*\<close> is rounded to the nearest
  double, ties to even, and overflows to an infinity. It decides what a property says
  about single values, as for the discount of scenario B, which is 19.9 in exact
  arithmetic and 19.900000000000002 in the code.

  On the built-in tables the two differ in the last places of the locals only: lemmas
  \<open>builtin_total_clear_of_half\<close> and \<open>builtin_discount_clear_of_half\<close> show that the
  exact total and the exact discount are never closer than 1/50 to a rounding boundary
  of \<^verbatim>\<open>Math.round\<close>, far more than the rounding error (about 1e-13) of the few operations
  on doubles of this size.

  Values. Reading a key that an object literal does not have gives \<^verbatim>\<open>undefined\<close>, and
  arithmetic on \<^verbatim>\<open>undefined\<close> gives \<^verbatim>\<open>NaN\<close>; both are values of the two embeddings. A
  table is the list of the own properties of the object literal, in the order written.
  A key inherited from \<^verbatim>\<open>Object.prototype\<close> is outside the first embedding, where it
  reads as \<^verbatim>\<open>undefined\<close>; the second has it.
\<close>

subsection \<open>Values and arithmetic\<close>

datatype jsval = Undefined | NaN | Num rat

text \<open>\<^verbatim>\<open>a + b\<close>, \<^verbatim>\<open>a - b\<close>, \<^verbatim>\<open>a * b\<close> on operands that are numbers or \<^verbatim>\<open>undefined\<close>:
  \<^verbatim>\<open>undefined\<close> converts to \<^verbatim>\<open>NaN\<close>, and \<^verbatim>\<open>NaN\<close> absorbs.\<close>

fun js_add :: "jsval \<Rightarrow> jsval \<Rightarrow> jsval" where
  "js_add (Num a) (Num b) = Num (a + b)"
| "js_add _ _ = NaN"

fun js_sub :: "jsval \<Rightarrow> jsval \<Rightarrow> jsval" where
  "js_sub (Num a) (Num b) = Num (a - b)"
| "js_sub _ _ = NaN"

fun js_mul :: "jsval \<Rightarrow> jsval \<Rightarrow> jsval" where
  "js_mul (Num a) (Num b) = Num (a * b)"
| "js_mul _ _ = NaN"

text \<open>\<^verbatim>\<open>v >= 0\<close>: false when \<^verbatim>\<open>v\<close> is \<^verbatim>\<open>undefined\<close> or \<^verbatim>\<open>NaN\<close>.\<close>

fun js_ge0 :: "jsval \<Rightarrow> bool" where
  "js_ge0 (Num a) = (0 \<le> a)"
| "js_ge0 _ = False"

text \<open>\<^verbatim>\<open>Math.round(v)\<close>: the integer nearest to \<^verbatim>\<open>v\<close>, a tie going up (towards
  plus infinity); \<^verbatim>\<open>NaN\<close> for \<^verbatim>\<open>NaN\<close> and \<^verbatim>\<open>undefined\<close>.\<close>

definition round_half_up :: "rat \<Rightarrow> int" where
  "round_half_up x = \<lfloor>x + 1 / 2\<rfloor>"

fun Math_round :: "jsval \<Rightarrow> jsval" where
  "Math_round (Num a) = Num (of_int (round_half_up a))"
| "Math_round _ = NaN"

subsection \<open>Rate tables (lines 263-301)\<close>

type_synonym table = "(string \<times> rat) list"

text \<open>\<^verbatim>\<open>t[k]\<close>\<close>

definition get :: "table \<Rightarrow> string \<Rightarrow> jsval" where
  "get t k = (case map_of t k of None \<Rightarrow> Undefined | Some v \<Rightarrow> Num v)"

text \<open>\<^verbatim>\<open>Object.keys(t)\<close>\<close>

definition keys :: "table \<Rightarrow> string list" where
  "keys t = map fst t"

record rates =
  basePrices :: table
  bathroomPrices :: table
  serviceAdjustments :: table
  frequencyDiscounts :: table
  addOnPrices :: table

definition builtin :: rates where
  "builtin = \<lparr>
     basePrices = [(''studio'', 69), (''1bed'', 79), (''2bed'', 89), (''3bed'', 119),
                   (''4bed'', 149), (''5bed'', 179)],
     bathroomPrices = [(''1'', 0), (''1.5'', 15), (''2'', 30), (''2.5'', 45), (''3'', 60),
                       (''4'', 90)],
     serviceAdjustments = [(''standard'', 0), (''deep'', 80), (''move'', 180)],
     frequencyDiscounts = [(''one-time'', 0), (''weekly'', 1 / 10), (''biweekly'', 1 / 20),
                           (''monthly'', 3 / 100)],
     addOnPrices = [(''steamSanitize'', 35), (''laundry'', 25), (''windows'', 30),
                    (''fridge'', 25), (''pets'', 15), (''cabinets'', 20)] \<rparr>"

text \<open>An object has each of its keys once.\<close>

definition wf_rates :: "rates \<Rightarrow> bool" where
  "wf_rates R \<longleftrightarrow>
     distinct (keys (basePrices R)) \<and> distinct (keys (bathroomPrices R)) \<and>
     distinct (keys (serviceAdjustments R)) \<and> distinct (keys (frequencyDiscounts R)) \<and>
     distinct (keys (addOnPrices R))"

subsection \<open>The computation (lines 304-329)\<close>

text \<open>The \<^verbatim>\<open>forEach\<close> of lines 312-316 over the keys of \<^verbatim>\<open>addOnPrices\<close>; \<open>sel key\<close>
  is the test \<^verbatim>\<open>inputs[key] && inputs[key].checked\<close>.\<close>

fun addOns_loop :: "table \<Rightarrow> (string \<Rightarrow> bool) \<Rightarrow> string list \<Rightarrow> jsval \<Rightarrow> jsval" where
  "addOns_loop t sel [] acc = acc"
| "addOns_loop t sel (key # rest) acc =
     addOns_loop t sel rest (if sel key then js_add acc (get t key) else acc)"

text \<open>The local variables of \<^verbatim>\<open>calculate\<close> as they stand after line 329; \<open>baseTotal\<close> is
  the value of \<^verbatim>\<open>total\<close> after line 305.\<close>

record locals =
  baseTotal :: jsval
  serviceAdj :: jsval
  freqDiscount :: jsval
  addOnsTotal :: jsval
  discountable :: jsval
  discount :: jsval
  total :: jsval

definition compute :: "rates \<Rightarrow> string \<Rightarrow> string \<Rightarrow> string \<Rightarrow> string \<Rightarrow> (string \<Rightarrow> bool) \<Rightarrow> locals"
  where
  "compute R pt ba st fr sel =
     (let total0 = get (basePrices R) pt;
          total1 = js_add total0 (get (bathroomPrices R) ba);
          sAdj = get (serviceAdjustments R) st;
          fDisc = get (frequencyDiscounts R) fr;
          addOns = addOns_loop (addOnPrices R) sel (keys (addOnPrices R)) (Num 0);
          total2 = js_add total1 sAdj;
          dable = total2;
          disc = js_mul dable fDisc;
          total3 = js_add total2 addOns;
          total4 = js_sub total3 disc
      in \<lparr> baseTotal = total1, serviceAdj = sAdj, freqDiscount = fDisc, addOnsTotal = addOns,
           discountable = dable, discount = disc, total = total4 \<rparr>)"

subsection \<open>The page: reading the inputs, writing the display (lines 242-261, 332-336)\<close>

text \<open>
  A text node written by \<^verbatim>\<open>calculate\<close> is a fixed prefix followed by the string form of
  a value: \<open>(p, v)\<close> stands for \<^verbatim>\<open>p + v\<close>.

  \<^verbatim>\<open>document.getElementById\<close> gives \<^verbatim>\<open>null\<close> for an element the page does not have.
  The checkboxes are tested before use (line 313); the four selects and the five display
  elements are not, and reading \<^verbatim>\<open>.value\<close> of \<^verbatim>\<open>null\<close> or writing its \<^verbatim>\<open>.textContent\<close>
  throws a \<^verbatim>\<open>TypeError\<close>. The model returns the error alone: it does not describe the
  text nodes already written when the exception leaves \<^verbatim>\<open>calculate\<close>. A field of
  the page is \<open>None\<close> when the page has no such element.
\<close>

type_synonym textnode = "string \<times> jsval"

datatype error = TypeError

record page =
  propertyType :: "string option"
  bathrooms :: "string option"
  serviceType :: "string option"
  frequency :: "string option"
  checked :: "string set"
  display_total :: "textnode option"
  display_base :: "textnode option"
  display_service :: "textnode option"
  display_frequency :: "textnode option"
  display_addOns :: "textnode option"

text \<open>The field \<open>checked\<close> holds the keys \<^verbatim>\<open>key\<close> for which \<^verbatim>\<open>inputs[key]\<close> is an
  element of the page and its \<^verbatim>\<open>checked\<close> property is true; for every other key the test
  of line 313 fails, whether the checkbox is missing or unchecked.\<close>

definition selected :: "page \<Rightarrow> string \<Rightarrow> bool" where
  "selected p key = (key \<in> checked p)"

definition elements_present :: "page \<Rightarrow> bool" where
  "elements_present p \<longleftrightarrow>
     propertyType p \<noteq> None \<and> bathrooms p \<noteq> None \<and> serviceType p \<noteq> None \<and>
     frequency p \<noteq> None \<and> display_total p \<noteq> None \<and> display_base p \<noteq> None \<and>
     display_service p \<noteq> None \<and> display_frequency p \<noteq> None \<and> display_addOns p \<noteq> None"

definition calculate_with :: "rates \<Rightarrow> page \<Rightarrow> error + page" where
  "calculate_with R p =
     (case (propertyType p, bathrooms p, serviceType p, frequency p) of
        (Some pt, Some ba, Some st, Some fr) \<Rightarrow>
          (let c = compute R pt ba st fr (selected p) in
           if display_total p = None \<or> display_base p = None \<or> display_service p = None \<or>
              display_frequency p = None \<or> display_addOns p = None
           then Inl TypeError
           else Inr (p \<lparr>
             display_total := Some (''$'', Math_round (total c)),
             display_base := Some (''$'', js_add (get (basePrices R) pt) (get (bathroomPrices R) ba)),
             display_service := Some ((if js_ge0 (serviceAdj c) then ''+'' else '''') @ ''$'',
                                      serviceAdj c),
             display_frequency := Some (''-'' @ ''$'', Math_round (discount c)),
             display_addOns := Some (''$'', addOnsTotal c) \<rparr>))
      | _ \<Rightarrow> Inl TypeError)"

text \<open>\<^verbatim>\<open>calculate\<close> itself: the tables are the constants of the enclosing function.\<close>

definition calculate :: "page \<Rightarrow> error + page" where
  "calculate p = calculate_with builtin p"

subsection \<open>The same lines in double precision\<close>

text \<open>
  A value of the code: \<^verbatim>\<open>undefined\<close>, \<^verbatim>\<open>NaN\<close>, an infinity (\<open>DInfinity True\<close> is the
  negative one), a finite double given by its exact rational value, or \<open>DText\<close>: a
  function or object inherited from \<^verbatim>\<open>Object.prototype\<close>, or the string that \<^verbatim>\<open>+\<close>
  makes of it; none of these reads as a number. The two zeros of IEEE 754 are one value
  here: \<^verbatim>\<open>calculate\<close> does not divide, \<^verbatim>\<open>-0 >= 0\<close> holds and \<^verbatim>\<open>-0\<close> prints as
  \<^verbatim>\<open>0\<close>, so nothing in it tells them apart.
\<close>

datatype dval = DUndefined | DNaN | DInfinity bool | DText | Dbl rat

definition pow2 :: "int \<Rightarrow> rat" where
  "pow2 e = (if 0 \<le> e then 2 ^ nat e else 1 / 2 ^ nat (- e))"

text \<open>The number of binary digits of a positive integer.\<close>

function bits :: "int \<Rightarrow> nat" where
  "bits n = (if n \<le> 0 then 0 else Suc (bits (n div 2)))"
  by pat_completeness auto
termination
  by (relation "measure nat") auto

text \<open>The binary exponent of a non-zero rational: \<open>pow2 e \<le> \<bar>x\<bar> < pow2 (e + 1)\<close>. With
  \<open>\<bar>x\<bar> = p / q\<close> in lowest terms, the difference of the digit counts of \<open>p\<close> and \<open>q\<close> is
  the exponent or one above it.\<close>

definition exponent :: "rat \<Rightarrow> int" where
  "exponent x =
     (let (p, q) = quotient_of \<bar>x\<bar>;
          e0 = int (bits p) - int (bits q)
      in if \<bar>x\<bar> < pow2 e0 then e0 - 1 else e0)"

text \<open>The nearest integer, a tie going to the even one.\<close>

definition round_even :: "rat \<Rightarrow> int" where
  "round_even q =
     (let n = \<lfloor>q\<rfloor>; f = q - of_int n
      in if f < 1 / 2 then n else if 1 / 2 < f then n + 1 else if even n then n else n + 1)"

text \<open>
  The double nearest to a rational (binary64, round to nearest, ties to even): 53
  significant bits, so the spacing at exponent \<open>e\<close> is \<open>pow2 (e - 52)\<close>; below the
  exponent -1022 the spacing stays that of the subnormal numbers; a result of magnitude
  \<open>pow2 1024\<close> is an infinity. Below the exponent 1023 the rounded value is at most
  \<open>pow2 1023\<close>, so only the top binade is compared with \<open>pow2 1024\<close>.
\<close>

definition to_double :: "rat \<Rightarrow> dval" where
  "to_double x =
     (if x = 0 then Dbl 0
      else let e = max (exponent x) (- 1022);
               u = pow2 (e - 52);
               y = of_int (round_even (x / u)) * u
           in if e < 1023 then Dbl y
              else if pow2 1024 \<le> \<bar>y\<bar> then DInfinity (y < 0) else Dbl y)"

text \<open>\<^verbatim>\<open>a + b\<close>: a string as soon as one operand is not a primitive number or
  \<^verbatim>\<open>undefined\<close>; else the sum of doubles, rounded.\<close>

fun d_add :: "dval \<Rightarrow> dval \<Rightarrow> dval" where
  "d_add DText _ = DText"
| "d_add _ DText = DText"
| "d_add (Dbl a) (Dbl b) = to_double (a + b)"
| "d_add (DInfinity s) (DInfinity t) = (if s = t then DInfinity s else DNaN)"
| "d_add (DInfinity s) (Dbl _) = DInfinity s"
| "d_add (Dbl _) (DInfinity s) = DInfinity s"
| "d_add _ _ = DNaN"

text \<open>\<^verbatim>\<open>a - b\<close> and \<^verbatim>\<open>a * b\<close> convert both operands to numbers first; \<open>DText\<close> and
  \<^verbatim>\<open>undefined\<close> convert to \<^verbatim>\<open>NaN\<close>.\<close>

fun d_sub :: "dval \<Rightarrow> dval \<Rightarrow> dval" where
  "d_sub (Dbl a) (Dbl b) = to_double (a - b)"
| "d_sub (DInfinity s) (DInfinity t) = (if s = t then DNaN else DInfinity s)"
| "d_sub (DInfinity s) (Dbl _) = DInfinity s"
| "d_sub (Dbl _) (DInfinity s) = DInfinity (\<not> s)"
| "d_sub _ _ = DNaN"

fun d_mul :: "dval \<Rightarrow> dval \<Rightarrow> dval" where
  "d_mul (Dbl a) (Dbl b) = to_double (a * b)"
| "d_mul (DInfinity s) (DInfinity t) = DInfinity (s \<noteq> t)"
| "d_mul (DInfinity s) (Dbl b) = (if b = 0 then DNaN else DInfinity (s \<noteq> (b < 0)))"
| "d_mul (Dbl a) (DInfinity s) = (if a = 0 then DNaN else DInfinity (s \<noteq> (a < 0)))"
| "d_mul _ _ = DNaN"

text \<open>\<^verbatim>\<open>v >= 0\<close>\<close>

fun d_ge0 :: "dval \<Rightarrow> bool" where
  "d_ge0 (Dbl a) = (0 \<le> a)"
| "d_ge0 (DInfinity s) = (\<not> s)"
| "d_ge0 _ = False"

text \<open>\<^verbatim>\<open>Math.round(v)\<close>: the nearest integer, a tie going up. The result is a double
  without rounding: a double of magnitude \<open>pow2 52\<close> or more is an integer already.\<close>

fun d_round :: "dval \<Rightarrow> dval" where
  "d_round (Dbl a) = Dbl (of_int \<lfloor>a + 1 / 2\<rfloor>)"
| "d_round (DInfinity s) = DInfinity s"
| "d_round _ = DNaN"

text \<open>The properties every object literal inherits from \<^verbatim>\<open>Object.prototype\<close>.\<close>

definition inherited_keys :: "string list" where
  "inherited_keys = [''constructor'', ''__proto__'', ''hasOwnProperty'', ''isPrototypeOf'',
     ''propertyIsEnumerable'', ''toLocaleString'', ''toString'', ''valueOf'',
     ''__defineGetter__'', ''__defineSetter__'', ''__lookupGetter__'', ''__lookupSetter__'']"

text \<open>\<^verbatim>\<open>t[k]\<close>: the entry of the table is the decimal literal of the source, read as the
  nearest double.\<close>

definition d_get :: "table \<Rightarrow> string \<Rightarrow> dval" where
  "d_get t k =
     (case map_of t k of
        Some v \<Rightarrow> to_double v
      | None \<Rightarrow> if k \<in> set inherited_keys then DText else DUndefined)"

fun addOns_loop_ieee :: "table \<Rightarrow> (string \<Rightarrow> bool) \<Rightarrow> string list \<Rightarrow> dval \<Rightarrow> dval" where
  "addOns_loop_ieee t sel [] acc = acc"
| "addOns_loop_ieee t sel (key # rest) acc =
     addOns_loop_ieee t sel rest (if sel key then d_add acc (d_get t key) else acc)"

record locals_ieee =
  baseTotal_d :: dval
  serviceAdj_d :: dval
  freqDiscount_d :: dval
  addOnsTotal_d :: dval
  discountable_d :: dval
  discount_d :: dval
  total_d :: dval

text \<open>Lines 304-329.\<close>

definition compute_ieee :: "rates \<Rightarrow> string \<Rightarrow> string \<Rightarrow> string \<Rightarrow> string \<Rightarrow> (string \<Rightarrow> bool) \<Rightarrow> locals_ieee"
  where
  "compute_ieee R pt ba st fr sel =
     (let total0 = d_get (basePrices R) pt;
          total1 = d_add total0 (d_get (bathroomPrices R) ba);
          sAdj = d_get (serviceAdjustments R) st;
          fDisc = d_get (frequencyDiscounts R) fr;
          addOns = addOns_loop_ieee (addOnPrices R) sel (keys (addOnPrices R)) (Dbl 0);
          total2 = d_add total1 sAdj;
          dable = total2;
          disc = d_mul dable fDisc;
          total3 = d_add total2 addOns;
          total4 = d_sub total3 disc
      in \<lparr> baseTotal_d = total1, serviceAdj_d = sAdj, freqDiscount_d = fDisc,
           addOnsTotal_d = addOns, discountable_d = dable, discount_d = disc,
           total_d = total4 \<rparr>)"

text \<open>Lines 332-336: the five text nodes the run writes, each a prefix and a value.\<close>

record display_ieee =
  total_node :: "string \<times> dval"
  base_node :: "string \<times> dval"
  service_node :: "string \<times> dval"
  frequency_node :: "string \<times> dval"
  addOns_node :: "string \<times> dval"

definition calculate_ieee_with :: "rates \<Rightarrow> page \<Rightarrow> error + display_ieee" where
  "calculate_ieee_with R p =
     (case (propertyType p, bathrooms p, serviceType p, frequency p) of
        (Some pt, Some ba, Some st, Some fr) \<Rightarrow>
          (let c = compute_ieee R pt ba st fr (selected p) in
           if display_total p = None \<or> display_base p = None \<or> display_service p = None \<or>
              display_frequency p = None \<or> display_addOns p = None
           then Inl TypeError
           else Inr \<lparr>
             total_node = (''$'', d_round (total_d c)),
             base_node = (''$'', d_add (d_get (basePrices R) pt) (d_get (bathroomPrices R) ba)),
             service_node = ((if d_ge0 (serviceAdj_d c) then ''+'' else '''') @ ''$'',
                             serviceAdj_d c),
             frequency_node = (''-'' @ ''$'', d_round (discount_d c)),
             addOns_node = (''$'', addOnsTotal_d c) \<rparr>)
      | _ \<Rightarrow> Inl TypeError)"

definition calculate_ieee :: "page \<Rightarrow> error + display_ieee" where
  "calculate_ieee p = calculate_ieee_with builtin p"

text \<open>The locals of that run.\<close>

definition locals_ieee_of :: "rates \<Rightarrow> page \<Rightarrow> locals_ieee option" where
  "locals_ieee_of R p =
     (case (propertyType p, bathrooms p, serviceType p, frequency p) of
        (Some pt, Some ba, Some st, Some fr) \<Rightarrow> Some (compute_ieee R pt ba st fr (selected p))
      | _ \<Rightarrow> None)"

subsection \<open>Vocabulary of the properties\<close>

text \<open>The price a table lists for one of its keys.\<close>

definition listed_price :: "table \<Rightarrow> string \<Rightarrow> rat" where
  "listed_price t k = the (map_of t k)"

definition known :: "table \<Rightarrow> string option \<Rightarrow> bool" where
  "known t sel = (case sel of None \<Rightarrow> False | Some k \<Rightarrow> k \<in> set (keys t))"

text \<open>A valid configuration: the page has the elements \<^verbatim>\<open>calculate\<close> uses, the four
  selected keys are keys of their tables, and so is every checked add-on.\<close>

definition valid_config :: "rates \<Rightarrow> page \<Rightarrow> bool" where
  "valid_config R p \<longleftrightarrow>
     elements_present p \<and>
     known (basePrices R) (propertyType p) \<and> known (bathroomPrices R) (bathrooms p) \<and>
     known (serviceAdjustments R) (serviceType p) \<and>
     known (frequencyDiscounts R) (frequency p) \<and>
     checked p \<subseteq> set (keys (addOnPrices R))"

text \<open>The locals of the run of \<^verbatim>\<open>calculate\<close> on a page that has its four selects.\<close>

definition locals_of :: "rates \<Rightarrow> page \<Rightarrow> locals option" where
  "locals_of R p =
     (case (propertyType p, bathrooms p, serviceType p, frequency p) of
        (Some pt, Some ba, Some st, Some fr) \<Rightarrow> Some (compute R pt ba st fr (selected p))
      | _ \<Rightarrow> None)"

text \<open>The value a text node shows after its prefix.\<close>

definition shown :: "textnode option \<Rightarrow> jsval" where
  "shown t = (case t of None \<Rightarrow> Undefined | Some (_, v) \<Rightarrow> v)"

text \<open>The five text nodes of a page.\<close>

definition display_of :: "page \<Rightarrow> textnode option \<times> textnode option \<times> textnode option \<times> textnode option \<times> textnode option"
  where
  "display_of p =
     (display_total p, display_base p, display_service p, display_frequency p, display_addOns p)"

text \<open>The quantities of the specification's algorithm (section 4.1, steps 3 to 6), written
  from its wording with exact arithmetic on the listed prices; the theorems below compare
  the locals of \<^verbatim>\<open>calculate\<close> with them.\<close>

definition spec_subtotal :: "rates \<Rightarrow> string \<Rightarrow> string \<Rightarrow> string \<Rightarrow> rat" where
  "spec_subtotal R pt ba st =
     listed_price (basePrices R) pt + listed_price (bathroomPrices R) ba +
     listed_price (serviceAdjustments R) st"

definition spec_discount :: "rates \<Rightarrow> string \<Rightarrow> string \<Rightarrow> string \<Rightarrow> string \<Rightarrow> rat" where
  "spec_discount R pt ba st fr =
     spec_subtotal R pt ba st * listed_price (frequencyDiscounts R) fr"

definition spec_addOns :: "rates \<Rightarrow> string set \<Rightarrow> rat" where
  "spec_addOns R S = (\<Sum>k\<in>S. listed_price (addOnPrices R) k)"

definition spec_rawTotal :: "rates \<Rightarrow> string \<Rightarrow> string \<Rightarrow> string \<Rightarrow> string \<Rightarrow> string set \<Rightarrow> rat"
  where
  "spec_rawTotal R pt ba st fr S =
     spec_subtotal R pt ba st + spec_addOns R S - spec_discount R pt ba st fr"

text \<open>Every entry of a table satisfies a condition.\<close>

definition entries_all :: "(rat \<Rightarrow> bool) \<Rightarrow> table \<Rightarrow> bool" where
  "entries_all P t = list_all (\<lambda>(k, v). P v) t"

definition nonneg_rates :: "rates \<Rightarrow> bool" where
  "nonneg_rates R \<longleftrightarrow>
     entries_all (\<lambda>v. 0 \<le> v) (basePrices R) \<and> entries_all (\<lambda>v. 0 \<le> v) (bathroomPrices R) \<and>
     entries_all (\<lambda>v. 0 \<le> v) (serviceAdjustments R) \<and>
     entries_all (\<lambda>v. 0 \<le> v) (addOnPrices R) \<and>
     entries_all (\<lambda>v. 0 \<le> v \<and> v < 1) (frequencyDiscounts R)"

text \<open>The displayed items summed as a customer would, base plus service plus add-ons minus
  the displayed discount, less the displayed total; \<open>None\<close> unless all five are numbers.\<close>

definition itemized_gap :: "page \<Rightarrow> rat option" where
  "itemized_gap p =
     (case (shown (display_base p), shown (display_service p), shown (display_addOns p),
            shown (display_frequency p), shown (display_total p)) of
        (Num b, Num a, Num ad, Num d, Num t) \<Rightarrow> Some (b + a + ad - d - t)
      | _ \<Rightarrow> None)"

text \<open>Every discountable amount a table set can produce, with every rate.\<close>

definition discount_cases :: "rates \<Rightarrow> (rat \<times> rat) list" where
  "discount_cases R =
     concat (map (\<lambda>b. concat (map (\<lambda>s. concat (map (\<lambda>a. map (\<lambda>r. (b + s + a, r))
       (map snd (frequencyDiscounts R))) (map snd (serviceAdjustments R))))
       (map snd (bathroomPrices R)))) (map snd (basePrices R)))"

text \<open>The distance of a value from the nearest rounding boundary of \<^verbatim>\<open>Math.round\<close>.\<close>

definition half_margin :: "rat \<Rightarrow> rat" where
  "half_margin x = \<bar>x - of_int \<lfloor>x\<rfloor> - 1 / 2\<bar>"

text \<open>A display element that shows nothing yet.\<close>

definition blank :: "textnode option" where
  "blank = Some ([], Undefined)"

text \<open>Four pages: scenario A of the specification, its unknown property type, and its
  scenarios B and C.\<close>

definition page_A :: page where
  "page_A = \<lparr> propertyType = Some ''1bed'', bathrooms = Some ''1'',
     serviceType = Some ''standard'', frequency = Some ''one-time'', checked = {},
     display_total = blank, display_base = blank, display_service = blank,
     display_frequency = blank, display_addOns = blank \<rparr>"

definition page_mansion :: page where
  "page_mansion = \<lparr> propertyType = Some ''mansion'', bathrooms = Some ''1'',
     serviceType = Some ''standard'', frequency = Some ''one-time'', checked = {},
     display_total = blank, display_base = blank, display_service = blank,
     display_frequency = blank, display_addOns = blank \<rparr>"

definition page_B :: page where
  "page_B = \<lparr> propertyType = Some ''2bed'', bathrooms = Some ''2'',
     serviceType = Some ''deep'', frequency = Some ''weekly'', checked = {''windows'', ''pets''},
     display_total = blank, display_base = blank, display_service = blank,
     display_frequency = blank, display_addOns = blank \<rparr>"

definition page_C :: page where
  "page_C = \<lparr> propertyType = Some ''studio'', bathrooms = Some ''1'',
     serviceType = Some ''move'', frequency = Some ''monthly'', checked = {''fridge''},
     display_total = blank, display_base = blank, display_service = blank,
     display_frequency = blank, display_addOns = blank \<rparr>"

text \<open>A page whose property type is a key every object inherits.\<close>

definition page_constructor :: page where
  "page_constructor = \<lparr> propertyType = Some ''constructor'', bathrooms = Some ''1'',
     serviceType = Some ''standard'', frequency = Some ''one-time'', checked = {},
     display_total = blank, display_base = blank, display_service = blank,
     display_frequency = blank, display_addOns = blank \<rparr>"

section \<open>Properties\<close>

subsection \<open>The loop over the add-ons\<close>

lemma key_has_entry:
  assumes "k \<in> set (keys t)"
  shows "\<exists>v. map_of t k = Some v"
proof -
  from assms have "k \<in> fst ` set t" by (simp add: keys_def)
  then show ?thesis by (cases "map_of t k") (auto simp: map_of_eq_None_iff)
qed

lemma get_known: "k \<in> set (keys t) \<Longrightarrow> get t k = Num (listed_price t k)"
  using key_has_entry [of k t] by (auto simp: get_def listed_price_def)

lemma get_unknown: "k \<notin> set (keys t) \<Longrightarrow> get t k = Undefined"
  by (simp add: get_def keys_def map_of_eq_None_iff [THEN iffD2])

lemma addOns_loop_Num:
  "set ks \<subseteq> set (keys t) \<Longrightarrow>
   addOns_loop t sel ks (Num x) = Num (x + sum_list (map (listed_price t) (filter sel ks)))"
proof (induction ks arbitrary: x)
  case Nil
  then show ?case by simp
next
  case (Cons k ks)
  then have "get t k = Num (listed_price t k)" by (simp add: get_known)
  with Cons show ?case by (simp add: add.assoc)
qed

lemma addOns_loop_sum:
  assumes "distinct (keys t)" "S \<subseteq> set (keys t)"
  shows "addOns_loop t (\<lambda>k. k \<in> S) (keys t) (Num 0) = Num (\<Sum>k\<in>S. listed_price t k)"
proof -
  have "{k \<in> set (keys t). k \<in> S} = S" using assms(2) by auto
  then have "sum_list (map (listed_price t) (filter (\<lambda>k. k \<in> S) (keys t))) =
      (\<Sum>k\<in>S. listed_price t k)"
    using assms(1) by (simp add: sum_list_distinct_conv_sum_set)
  then show ?thesis by (simp add: addOns_loop_Num)
qed

lemma addOns_loop_cong:
  "(\<And>k. k \<in> set ks \<Longrightarrow> sel k = sel' k) \<Longrightarrow> addOns_loop t sel ks acc = addOns_loop t sel' ks acc"
  by (induction ks arbitrary: acc) simp_all

subsection \<open>The run on a valid configuration\<close>

lemma compute_known:
  assumes "pt \<in> set (keys (basePrices R))" "ba \<in> set (keys (bathroomPrices R))"
    and "st \<in> set (keys (serviceAdjustments R))" "fr \<in> set (keys (frequencyDiscounts R))"
    and "distinct (keys (addOnPrices R))" "S \<subseteq> set (keys (addOnPrices R))"
  shows "compute R pt ba st fr (\<lambda>k. k \<in> S) =
    \<lparr> baseTotal = Num (listed_price (basePrices R) pt + listed_price (bathroomPrices R) ba),
      serviceAdj = Num (listed_price (serviceAdjustments R) st),
      freqDiscount = Num (listed_price (frequencyDiscounts R) fr),
      addOnsTotal = Num (spec_addOns R S),
      discountable = Num (spec_subtotal R pt ba st),
      discount = Num (spec_discount R pt ba st fr),
      total = Num (spec_rawTotal R pt ba st fr S) \<rparr>"
  using assms
  by (simp add: compute_def get_known addOns_loop_sum spec_addOns_def spec_subtotal_def
      spec_discount_def spec_rawTotal_def)

lemma selected_eq: "selected p = (\<lambda>k. k \<in> checked p)"
  by (simp add: selected_def fun_eq_iff)

lemma valid_configD:
  assumes "valid_config R p"
  obtains pt ba st fr where
    "propertyType p = Some pt" "bathrooms p = Some ba" "serviceType p = Some st"
    "frequency p = Some fr"
    "pt \<in> set (keys (basePrices R))" "ba \<in> set (keys (bathroomPrices R))"
    "st \<in> set (keys (serviceAdjustments R))" "fr \<in> set (keys (frequencyDiscounts R))"
    "checked p \<subseteq> set (keys (addOnPrices R))" "elements_present p"
  using assms by (auto simp: valid_config_def known_def split: option.splits)

lemma calculate_with_present:
  assumes "elements_present p"
    and "propertyType p = Some pt" "bathrooms p = Some ba" "serviceType p = Some st"
    and "frequency p = Some fr"
  shows "calculate_with R p =
    Inr (p \<lparr>
      display_total := Some (''$'', Math_round (total (compute R pt ba st fr (selected p)))),
      display_base := Some (''$'', js_add (get (basePrices R) pt) (get (bathroomPrices R) ba)),
      display_service :=
        Some ((if js_ge0 (serviceAdj (compute R pt ba st fr (selected p))) then ''+'' else '''') @ ''$'',
              serviceAdj (compute R pt ba st fr (selected p))),
      display_frequency := Some (''-$'', Math_round (discount (compute R pt ba st fr (selected p)))),
      display_addOns := Some (''$'', addOnsTotal (compute R pt ba st fr (selected p))) \<rparr>)"
  using assms by (simp add: calculate_with_def elements_present_def Let_def)

lemma locals_of_present:
  assumes "propertyType p = Some pt" "bathrooms p = Some ba" "serviceType p = Some st"
    and "frequency p = Some fr"
  shows "locals_of R p = Some (compute R pt ba st fr (selected p))"
  using assms by (simp add: locals_of_def)


lemma round_half_up_add_int: "round_half_up (x + of_int n) = round_half_up x + n"
proof -
  have "x + of_int n + 1 / 2 = (x + 1 / 2) + of_int n" by simp
  then show ?thesis
    unfolding round_half_up_def by (simp only: floor_add_int [symmetric])
qed

lemma round_half_up_neg:
  assumes "half_margin d \<noteq> 0"
  shows "round_half_up (- d) = - round_half_up d"
proof -
  define k where "k = \<lfloor>d\<rfloor>"
  have lo: "of_int k \<le> d" and hi: "d < of_int k + 1"
    unfolding k_def by linarith+
  from assms have ne: "d - of_int k \<noteq> 1 / 2"
    unfolding half_margin_def k_def by simp
  show ?thesis
  proof (cases "d - of_int k < 1 / 2")
    case True
    have "\<lfloor>d + 1 / 2\<rfloor> = k"
      by (rule floor_unique) (use lo True in linarith)+
    moreover have "\<lfloor>- d + 1 / 2\<rfloor> = - k"
      by (rule floor_unique) (use lo True in simp_all)
    ultimately show ?thesis by (simp add: round_half_up_def)
  next
    case False
    with ne have gt: "1 / 2 < d - of_int k" by simp
    have "\<lfloor>d + 1 / 2\<rfloor> = k + 1"
      by (rule floor_unique) (use hi gt in simp_all)
    moreover have "\<lfloor>- d + 1 / 2\<rfloor> = - (k + 1)"
      by (rule floor_unique) (use hi gt in simp_all)
    ultimately show ?thesis by (simp add: round_half_up_def)
  qed
qed

lemma floor_rat_divide_numeral: "\<lfloor>numeral a / numeral b :: rat\<rfloor> = numeral a div numeral b"
  using floor_divide_of_int_eq [of "numeral a" "numeral b", where ?'a = rat] by simp

lemma entries_allD:
  assumes "entries_all P t" "k \<in> set (keys t)"
  shows "P (listed_price t k)"
proof -
  from key_has_entry [OF assms(2)] obtain v where v: "map_of t k = Some v" by blast
  then have "(k, v) \<in> set t" by (rule map_of_SomeD)
  with assms(1) have "P v" by (auto simp: entries_all_def list_all_iff)
  with v show ?thesis by (simp add: listed_price_def)
qed

lemma listed_entry:
  assumes "k \<in> set (keys t)"
  shows "listed_price t k \<in> snd ` set t"
proof -
  from key_has_entry [OF assms] obtain v where v: "map_of t k = Some v" by blast
  then have "(k, v) \<in> set t" by (rule map_of_SomeD)
  then have "v \<in> snd ` set t" by force
  with v show ?thesis by (simp add: listed_price_def)
qed

lemma calculate_with_valid:
  assumes "wf_rates R" and "valid_config R p"
    and "propertyType p = Some pt" "bathrooms p = Some ba" "serviceType p = Some st"
    and "frequency p = Some fr"
  shows "calculate_with R p =
    Inr (p \<lparr>
      display_total :=
        Some (''$'', Num (of_int (round_half_up (spec_rawTotal R pt ba st fr (checked p))))),
      display_base :=
        Some (''$'', Num (listed_price (basePrices R) pt + listed_price (bathroomPrices R) ba)),
      display_service :=
        Some ((if 0 \<le> listed_price (serviceAdjustments R) st then ''+'' else '''') @ ''$'',
              Num (listed_price (serviceAdjustments R) st)),
      display_frequency :=
        Some (''-$'', Num (of_int (round_half_up (spec_discount R pt ba st fr)))),
      display_addOns := Some (''$'', Num (spec_addOns R (checked p))) \<rparr>)"
proof -
  from assms(2) have pres: "elements_present p"
    and ks: "known (basePrices R) (propertyType p)" "known (bathroomPrices R) (bathrooms p)"
      "known (serviceAdjustments R) (serviceType p)" "known (frequencyDiscounts R) (frequency p)"
    and sub: "checked p \<subseteq> set (keys (addOnPrices R))"
    by (simp_all add: valid_config_def)
  from ks assms(3-6) have k: "pt \<in> set (keys (basePrices R))" "ba \<in> set (keys (bathroomPrices R))"
    "st \<in> set (keys (serviceAdjustments R))" "fr \<in> set (keys (frequencyDiscounts R))"
    by (simp_all add: known_def)
  from assms(1) have d: "distinct (keys (addOnPrices R))" by (simp add: wf_rates_def)
  note c = compute_known [OF k d sub]
  show ?thesis
    by (simp add: calculate_with_present [OF pres assms(3-6)] selected_eq c get_known k)
qed

lemma locals_of_valid:
  assumes "wf_rates R" and "valid_config R p"
    and "propertyType p = Some pt" "bathrooms p = Some ba" "serviceType p = Some st"
    and "frequency p = Some fr"
  shows "locals_of R p = Some
    \<lparr> baseTotal = Num (listed_price (basePrices R) pt + listed_price (bathroomPrices R) ba),
      serviceAdj = Num (listed_price (serviceAdjustments R) st),
      freqDiscount = Num (listed_price (frequencyDiscounts R) fr),
      addOnsTotal = Num (spec_addOns R (checked p)),
      discountable = Num (spec_subtotal R pt ba st),
      discount = Num (spec_discount R pt ba st fr),
      total = Num (spec_rawTotal R pt ba st fr (checked p)) \<rparr>"
proof -
  from assms(2) have
    ks: "known (basePrices R) (propertyType p)" "known (bathroomPrices R) (bathrooms p)"
      "known (serviceAdjustments R) (serviceType p)" "known (frequencyDiscounts R) (frequency p)"
    and sub: "checked p \<subseteq> set (keys (addOnPrices R))"
    by (simp_all add: valid_config_def)
  from ks assms(3-6) have k: "pt \<in> set (keys (basePrices R))" "ba \<in> set (keys (bathroomPrices R))"
    "st \<in> set (keys (serviceAdjustments R))" "fr \<in> set (keys (frequencyDiscounts R))"
    by (simp_all add: known_def)
  from assms(1) have d: "distinct (keys (addOnPrices R))" by (simp add: wf_rates_def)
  show ?thesis
    by (simp add: locals_of_present [OF assms(3-6)] selected_eq compute_known [OF k d sub])
qed

lemma wf_builtin: "wf_rates builtin"
  by (simp add: wf_rates_def builtin_def keys_def)

lemma valid_page_A: "valid_config builtin page_A"
  by (simp add: valid_config_def page_A_def elements_present_def blank_def known_def
      builtin_def keys_def)

lemma valid_page_B: "valid_config builtin page_B"
  by (simp add: valid_config_def page_B_def elements_present_def blank_def known_def
      builtin_def keys_def)

lemma valid_page_C: "valid_config builtin page_C"
  by (simp add: valid_config_def page_C_def elements_present_def blank_def known_def
      builtin_def keys_def)

subsection \<open>The defining equations\<close>



subsection \<open>Unknown keys\<close>

lemma elements_present_blank:
  "elements_present \<lparr> propertyType = Some pt, bathrooms = Some ba, serviceType = Some st,
     frequency = Some fr, checked = S, display_total = blank, display_base = blank,
     display_service = blank, display_frequency = blank, display_addOns = blank \<rparr>"
  by (simp add: elements_present_def blank_def)

lemma total_NaN_of_unknown:
  assumes "pt \<notin> set (keys (basePrices R)) \<or> ba \<notin> set (keys (bathroomPrices R)) \<or>
           st \<notin> set (keys (serviceAdjustments R)) \<or> fr \<notin> set (keys (frequencyDiscounts R))"
  shows "total (compute R pt ba st fr sel) = NaN"
proof -
  have u: "js_add Undefined x = NaN" "js_add x Undefined = NaN" "js_add NaN x = NaN"
    "js_sub NaN x = NaN" "js_sub x NaN = NaN" "js_mul x Undefined = NaN" for x
    by (cases x; simp)+
  have n: "js_add x NaN = NaN" "js_mul NaN x = NaN" for x
    by (cases x; simp)+
  from assms show ?thesis
    by (auto simp: compute_def Let_def get_unknown u n)
qed

text \<open>
  C2 (amended). \<^verbatim>\<open>calculate\<close> has no check of its keys and raises nothing for an
  unknown one. When the property type, the bathroom count, the service type or the
  frequency is not a key of its table, the lookup gives \<^verbatim>\<open>undefined\<close>, the run ends
  normally and the displayed total is \<^verbatim>\<open>NaN\<close>: no default is substituted and the entry
  is not taken as zero. A checked add-on that is not a key of \<^verbatim>\<open>addOnPrices\<close> is never
  looked up (the loop runs over the keys of the table): the display is the same with it
  and without it.
\<close>

theorem unknown_key_gives_NaN:
  assumes "elements_present p"
    and "propertyType p = Some pt" and "bathrooms p = Some ba"
    and "serviceType p = Some st" and "frequency p = Some fr"
  shows "(pt \<notin> set (keys (basePrices R)) \<or> ba \<notin> set (keys (bathroomPrices R)) \<or>
          st \<notin> set (keys (serviceAdjustments R)) \<or> fr \<notin> set (keys (frequencyDiscounts R))
          \<longrightarrow> (\<exists>p'. calculate_with R p = Inr p' \<and> shown (display_total p') = NaN)) \<and>
         (X \<inter> set (keys (addOnPrices R)) = {}
          \<longrightarrow> (\<exists>p' q'. calculate_with R p = Inr p' \<and>
                 calculate_with R (p \<lparr> checked := checked p \<union> X \<rparr>) = Inr q' \<and>
                 display_of q' = display_of p'))"
proof (intro conjI impI)
  assume "pt \<notin> set (keys (basePrices R)) \<or> ba \<notin> set (keys (bathroomPrices R)) \<or>
          st \<notin> set (keys (serviceAdjustments R)) \<or> fr \<notin> set (keys (frequencyDiscounts R))"
  then have "total (compute R pt ba st fr (selected p)) = NaN"
    by (rule total_NaN_of_unknown)
  then show "\<exists>p'. calculate_with R p = Inr p' \<and> shown (display_total p') = NaN"
    by (simp add: calculate_with_present [OF assms] shown_def)
next
  assume X: "X \<inter> set (keys (addOnPrices R)) = {}"
  let ?q = "p \<lparr> checked := checked p \<union> X \<rparr>"
  have "addOns_loop (addOnPrices R) (selected ?q) (keys (addOnPrices R)) acc =
        addOns_loop (addOnPrices R) (selected p) (keys (addOnPrices R)) acc" for acc
    using X by (intro addOns_loop_cong) (auto simp: selected_def)
  then have c: "compute R pt ba st fr (selected ?q) = compute R pt ba st fr (selected p)"
    by (simp add: compute_def)
  have q: "elements_present ?q" "propertyType ?q = Some pt" "bathrooms ?q = Some ba"
    "serviceType ?q = Some st" "frequency ?q = Some fr"
    using assms by (simp_all add: elements_present_def)
  show "\<exists>p' q'. calculate_with R p = Inr p' \<and> calculate_with R ?q = Inr q' \<and>
      display_of q' = display_of p'"
    by (simp add: calculate_with_present [OF assms] calculate_with_present [OF q] c display_of_def)
qed

theorem unknown_key_gives_NaN_witness:
  "elements_present page_mansion \<and> ''mansion'' \<notin> set (keys (basePrices builtin)) \<and>
   {''garage''} \<inter> set (keys (addOnPrices builtin)) = {} \<and>
   (\<exists>p'. calculate_with builtin page_mansion = Inr p' \<and> shown (display_total p') = NaN) \<and>
   (\<exists>p' q'. calculate_with builtin page_mansion = Inr p' \<and>
      calculate_with builtin (page_mansion \<lparr> checked := checked page_mansion \<union> {''garage''} \<rparr>) = Inr q' \<and>
      display_of q' = display_of p')"
proof -
  have e: "elements_present page_mansion"
    unfolding page_mansion_def by (rule elements_present_blank)
  have s: "propertyType page_mansion = Some ''mansion''" "bathrooms page_mansion = Some ''1''"
    "serviceType page_mansion = Some ''standard''" "frequency page_mansion = Some ''one-time''"
    by (simp_all add: page_mansion_def)
  have k: "''mansion'' \<notin> set (keys (basePrices builtin))"
    "{''garage''} \<inter> set (keys (addOnPrices builtin)) = {}"
    by (simp_all add: builtin_def keys_def)
  from unknown_key_gives_NaN [OF e s, of builtin "{''garage''}"] k e
  show ?thesis by simp
qed

text \<open>
  The configuration of the specification's own example, counterexample to C2 as stated:
  with the property type \<^verbatim>\<open>mansion\<close> the run ends normally, no error of any kind is
  raised, and the page shows \<^verbatim>\<open>$NaN\<close> for the total and the base.
\<close>

theorem mansion_raises_nothing:
  "calculate page_mansion =
     Inr (page_mansion \<lparr> display_total := Some (''$'', NaN), display_base := Some (''$'', NaN),
       display_service := Some (''+$'', Num 0), display_frequency := Some (''-$'', NaN),
       display_addOns := Some (''$'', Num 0) \<rparr>)"
  by (simp add: calculate_def calculate_with_def page_mansion_def blank_def compute_def
      selected_def get_def builtin_def keys_def Let_def)

subsection \<open>Rounding of the reported values\<close>



text \<open>
  The same order of operations in double precision, for any tables: the discount is one
  product of the subtotal, the total is the subtotal plus the add-ons less that unrounded
  discount, \<^verbatim>\<open>Math.round\<close> is applied once to each, after everything else, and the other
  three nodes show their locals.
\<close>

lemma rounding_once_double:
  assumes "elements_present p"
    and "propertyType p = Some pt" and "bathrooms p = Some ba"
    and "serviceType p = Some st" and "frequency p = Some fr"
  shows "\<exists>q c. calculate_ieee_with R p = Inr q \<and> locals_ieee_of R p = Some c \<and>
    discountable_d c = d_add (baseTotal_d c) (serviceAdj_d c) \<and>
    discount_d c = d_mul (discountable_d c) (freqDiscount_d c) \<and>
    total_d c = d_sub (d_add (discountable_d c) (addOnsTotal_d c)) (discount_d c) \<and>
    snd (total_node q) = d_round (total_d c) \<and>
    snd (frequency_node q) = d_round (discount_d c) \<and>
    snd (base_node q) = baseTotal_d c \<and>
    snd (service_node q) = serviceAdj_d c \<and>
    snd (addOns_node q) = addOnsTotal_d c"
  using assms
  by (simp add: calculate_ieee_with_def locals_ieee_of_def elements_present_def compute_ieee_def
      Let_def)

lemma d_round_nearest:
  "\<exists>n. d_round (Dbl x) = Dbl (of_int n) \<and> x - 1 / 2 < of_int n \<and> of_int n \<le> x + 1 / 2"
proof -
  have "x - 1 / 2 < of_int \<lfloor>x + 1 / 2\<rfloor> \<and> of_int \<lfloor>x + 1 / 2\<rfloor> \<le> x + 1 / 2"
    by linarith
  then show ?thesis by auto
qed

subsection \<open>The discount does not see the add-ons\<close>

text \<open>
  C4. Two valid configurations with the same property type, bathroom count, service type
  and frequency have the same discount, as computed and as displayed, whatever add-ons
  each has checked.
\<close>

theorem discount_independent_of_addOns:
  assumes "wf_rates R" and "valid_config R p" and "valid_config R q"
    and "propertyType q = propertyType p" and "bathrooms q = bathrooms p"
    and "serviceType q = serviceType p" and "frequency q = frequency p"
  shows "\<exists>p' q' c c'. calculate_with R p = Inr p' \<and> calculate_with R q = Inr q' \<and>
    locals_of R p = Some c \<and> locals_of R q = Some c' \<and>
    discount c' = discount c \<and> display_frequency q' = display_frequency p'"
proof -
  from valid_configD [OF assms(2)] obtain pt ba st fr where
    s: "propertyType p = Some pt" "bathrooms p = Some ba" "serviceType p = Some st"
      "frequency p = Some fr"
    by metis
  with assms(4-7) have s': "propertyType q = Some pt" "bathrooms q = Some ba"
    "serviceType q = Some st" "frequency q = Some fr"
    by simp_all
  show ?thesis
    by (simp add: calculate_with_valid [OF assms(1,2) s] calculate_with_valid [OF assms(1,3) s']
        locals_of_valid [OF assms(1,2) s] locals_of_valid [OF assms(1,3) s'])
qed

theorem discount_independent_of_addOns_witness:
  "wf_rates builtin \<and> valid_config builtin page_B \<and>
   valid_config builtin (page_B \<lparr> checked := {''laundry''} \<rparr>) \<and>
   (\<exists>p' q' c c'. calculate_with builtin page_B = Inr p' \<and>
      calculate_with builtin (page_B \<lparr> checked := {''laundry''} \<rparr>) = Inr q' \<and>
      locals_of builtin page_B = Some c \<and>
      locals_of builtin (page_B \<lparr> checked := {''laundry''} \<rparr>) = Some c' \<and>
      discount c' = discount c \<and> display_frequency q' = display_frequency p')"
proof -
  have v: "valid_config builtin (page_B \<lparr> checked := {''laundry''} \<rparr>)"
    by (simp add: valid_config_def page_B_def elements_present_def blank_def known_def
        builtin_def keys_def)
  from discount_independent_of_addOns [OF wf_builtin valid_page_B v]
  show ?thesis using wf_builtin valid_page_B v by simp
qed

subsection \<open>Double precision at work\<close>

text \<open>The rounding of literals and results on known cases: 0.1 is not one tenth; 0.1 + 0.2
  is 0.30000000000000004 and not 0.3; 100 * 0.145 is 14.499999999999998; a tie goes to
  the even neighbour, so \<open>2^54 + 2\<close> is \<open>2^54\<close>.\<close>

lemma to_double_examples:
  "to_double (1 / 10) = Dbl (3602879701896397 / 36028797018963968)"
  "d_add (to_double (1 / 10)) (to_double (2 / 10)) = to_double (30000000000000004 / 100000000000000000)"
  "d_add (to_double (1 / 10)) (to_double (2 / 10)) \<noteq> to_double (3 / 10)"
  "d_mul (to_double 100) (to_double (145 / 1000)) = to_double (14499999999999998 / 1000000000000000)"
  "d_add (to_double (2 ^ 54)) (to_double 2) = to_double (2 ^ 54)"
  by code_simp+

text \<open>Scenario A of the specification, the state of the page when it loads: 1bed, 1
  bathroom, standard, one-time, no add-on.\<close>

lemma scenario_A_double:
  "valid_config builtin page_A \<and>
   calculate_ieee page_A =
     Inr \<lparr> total_node = (''$'', Dbl 79), base_node = (''$'', Dbl 79),
       service_node = (''+$'', Dbl 0), frequency_node = (''-$'', Dbl 0),
       addOns_node = (''$'', Dbl 0) \<rparr>"
proof -
  have "calculate_ieee page_A =
     Inr \<lparr> total_node = (''$'', Dbl 79), base_node = (''$'', Dbl 79),
       service_node = (''+$'', Dbl 0), frequency_node = (''-$'', Dbl 0),
       addOns_node = (''$'', Dbl 0) \<rparr>"
    by code_simp
  with valid_page_A show ?thesis by (rule conjI)
qed

text \<open>An inherited key is a function, not a price: the base becomes a string and the
  total \<^verbatim>\<open>NaN\<close>, and nothing is thrown.\<close>

lemma inherited_key_double:
  "calculate_ieee page_constructor =
     Inr \<lparr> total_node = (''$'', DNaN), base_node = (''$'', DText),
       service_node = (''+$'', Dbl 0), frequency_node = (''-$'', DNaN),
       addOns_node = (''$'', Dbl 0) \<rparr>"
  by code_simp

subsection \<open>The scenarios of the specification\<close>

text \<open>
  C6 (amended). Scenario B on the built-in tables, in the arithmetic of the code: 2bed,
  2 bathrooms, deep, weekly, windows and pets. The subtotal before add-ons is 199 and the
  add-on total 45. The discount is the double product of 199 and 0.10, which is
  19.900000000000002 (exactly 5601352036542055 / 2^48) and is displayed rounded, as
  \<^verbatim>\<open>-$20\<close>. The raw total is the double that 224.1 denotes, and the displayed total is
  224.
\<close>

theorem scenario_B_double:
  "locals_ieee_of builtin page_B = Some
     \<lparr> baseTotal_d = Dbl 119, serviceAdj_d = Dbl 80, freqDiscount_d = to_double (1 / 10),
       addOnsTotal_d = Dbl 45, discountable_d = Dbl 199,
       discount_d = Dbl (5601352036542055 / 281474976710656),
       total_d = to_double (2241 / 10) \<rparr> \<and>
   to_double (19900000000000002 / 1000000000000000) = Dbl (5601352036542055 / 281474976710656) \<and>
   calculate_ieee page_B =
     Inr \<lparr> total_node = (''$'', Dbl 224), base_node = (''$'', Dbl 119),
       service_node = (''+$'', Dbl 80), frequency_node = (''-$'', Dbl 20),
       addOns_node = (''$'', Dbl 45) \<rparr>"
  by code_simp

text \<open>
  Counterexample to C6 as stated: in the code the discount of scenario B is not 19.9,
  neither the rational nor the double that the literal \<^verbatim>\<open>19.9\<close> denotes: it is
  the next double above that one.
\<close>

theorem scenario_B_discount_is_not_19_9:
  "discount_d (compute_ieee builtin ''2bed'' ''2'' ''deep'' ''weekly'' (selected page_B))
     \<noteq> to_double (199 / 10) \<and>
   discount_d (compute_ieee builtin ''2bed'' ''2'' ''deep'' ''weekly'' (selected page_B))
     \<noteq> Dbl (199 / 10) \<and>
   to_double (199 / 10) = Dbl (2800676018271027 / 140737488355328)"
  by code_simp

text \<open>
  C7. Scenario C on the built-in tables: studio, 1 bathroom, move, monthly, fridge. The
  subtotal before add-ons is 249, the discount 7.47, the add-on total 25, the raw total
  266.53, and the displayed total 267. The discount of 7.47 is the local
  \<^verbatim>\<open>discount\<close>; the page shows it rounded, as \<^verbatim>\<open>-$7\<close>.
\<close>

theorem scenario_C:
  "locals_of builtin page_C = Some
     \<lparr> baseTotal = Num 69, serviceAdj = Num 180, freqDiscount = Num (3 / 100),
       addOnsTotal = Num 25, discountable = Num 249, discount = Num (747 / 100),
       total = Num (26653 / 100) \<rparr> \<and>
   calculate page_C =
     Inr (page_C \<lparr> display_total := Some (''$'', Num 267), display_base := Some (''$'', Num 69),
       display_service := Some (''+$'', Num 180), display_frequency := Some (''-$'', Num 7),
       display_addOns := Some (''$'', Num 25) \<rparr>)"
proof -
  have s: "propertyType page_C = Some ''studio''" "bathrooms page_C = Some ''1''"
    "serviceType page_C = Some ''move''" "frequency page_C = Some ''monthly''"
    by (simp_all add: page_C_def)
  have c: "checked page_C = {''fridge''}" by (simp add: page_C_def)
  have l: "locals_of builtin page_C = Some
     \<lparr> baseTotal = Num 69, serviceAdj = Num 180, freqDiscount = Num (3 / 100),
       addOnsTotal = Num 25, discountable = Num 249, discount = Num (747 / 100),
       total = Num (26653 / 100) \<rparr>"
    using locals_of_valid [OF wf_builtin valid_page_C s]
    by (simp add: c spec_addOns_def spec_subtotal_def spec_discount_def spec_rawTotal_def
        listed_price_def builtin_def)
  have d: "calculate page_C =
     Inr (page_C \<lparr> display_total := Some (''$'', Num 267), display_base := Some (''$'', Num 69),
       display_service := Some (''+$'', Num 180), display_frequency := Some (''-$'', Num 7),
       display_addOns := Some (''$'', Num 25) \<rparr>)"
    using calculate_with_valid [OF wf_builtin valid_page_C s]
    by (simp add: calculate_def c spec_addOns_def spec_subtotal_def spec_discount_def
        spec_rawTotal_def listed_price_def builtin_def round_half_up_def
        floor_rat_divide_numeral)
  from l d show ?thesis by (rule conjI)
qed

text \<open>In double precision scenario C has the values of C7: the product of 249 and 0.03
  is the double that 7.47 denotes, and 274 less that is the double that 266.53 denotes.\<close>

lemma scenario_C_double:
  "locals_ieee_of builtin page_C = Some
     \<lparr> baseTotal_d = Dbl 69, serviceAdj_d = Dbl 180, freqDiscount_d = to_double (3 / 100),
       addOnsTotal_d = Dbl 25, discountable_d = Dbl 249, discount_d = to_double (747 / 100),
       total_d = to_double (26653 / 100) \<rparr> \<and>
   calculate_ieee page_C =
     Inr \<lparr> total_node = (''$'', Dbl 267), base_node = (''$'', Dbl 69),
       service_node = (''+$'', Dbl 180), frequency_node = (''-$'', Dbl 7),
       addOns_node = (''$'', Dbl 25) \<rparr>"
  by code_simp

subsection \<open>The total is not negative\<close>

lemma spec_addOns_nonneg:
  assumes "entries_all (\<lambda>v. 0 \<le> v) (addOnPrices R)" "S \<subseteq> set (keys (addOnPrices R))"
  shows "0 \<le> spec_addOns R S"
  unfolding spec_addOns_def
  by (rule sum_nonneg) (use assms entries_allD in blast)

lemma nonneg_builtin: "nonneg_rates builtin"
  by (simp add: nonneg_rates_def entries_all_def builtin_def)

text \<open>
  C8. The tables of \<^verbatim>\<open>calculate\<close> meet the condition of the claim: every base price,
  bathroom surcharge, service adjustment and add-on price is at least zero and every
  frequency rate is at least zero and below one. On every valid configuration the
  displayed total is a number that is at least zero.
\<close>

theorem total_nonnegative:
  assumes "valid_config builtin p"
  shows "nonneg_rates builtin \<and>
    (\<exists>p' T. calculate p = Inr p' \<and> shown (display_total p') = Num T \<and> 0 \<le> T)"
proof -
  from valid_configD [OF assms] obtain pt ba st fr where
    s: "propertyType p = Some pt" "bathrooms p = Some ba" "serviceType p = Some st"
      "frequency p = Some fr"
    and k: "pt \<in> set (keys (basePrices builtin))" "ba \<in> set (keys (bathroomPrices builtin))"
      "st \<in> set (keys (serviceAdjustments builtin))"
      "fr \<in> set (keys (frequencyDiscounts builtin))"
      "checked p \<subseteq> set (keys (addOnPrices builtin))"
    by metis
  from nonneg_builtin have e: "entries_all (\<lambda>v. 0 \<le> v) (basePrices builtin)"
    "entries_all (\<lambda>v. 0 \<le> v) (bathroomPrices builtin)"
    "entries_all (\<lambda>v. 0 \<le> v) (serviceAdjustments builtin)"
    "entries_all (\<lambda>v. 0 \<le> v) (addOnPrices builtin)"
    "entries_all (\<lambda>v. 0 \<le> v \<and> v < 1) (frequencyDiscounts builtin)"
    by (simp_all add: nonneg_rates_def)
  have sub: "0 \<le> spec_subtotal builtin pt ba st"
    using entries_allD [OF e(1) k(1)] entries_allD [OF e(2) k(2)] entries_allD [OF e(3) k(3)]
    by (simp add: spec_subtotal_def)
  have r: "0 \<le> listed_price (frequencyDiscounts builtin) fr"
    "listed_price (frequencyDiscounts builtin) fr < 1"
    using entries_allD [OF e(5) k(4)] by simp_all
  have "spec_subtotal builtin pt ba st * listed_price (frequencyDiscounts builtin) fr
      \<le> spec_subtotal builtin pt ba st * 1"
    using sub r by (intro mult_left_mono) simp_all
  then have "spec_discount builtin pt ba st fr \<le> spec_subtotal builtin pt ba st"
    by (simp add: spec_discount_def)
  with spec_addOns_nonneg [OF e(4) k(5)]
  have "0 \<le> spec_rawTotal builtin pt ba st fr (checked p)"
    by (simp add: spec_rawTotal_def)
  then have "0 \<le> round_half_up (spec_rawTotal builtin pt ba st fr (checked p))"
    by (simp add: round_half_up_def)
  then have "\<exists>p' T. calculate p = Inr p' \<and> shown (display_total p') = Num T \<and> 0 \<le> T"
    by (simp add: calculate_def calculate_with_valid [OF wf_builtin assms s] shown_def)
  with nonneg_builtin show ?thesis by (rule conjI)
qed

theorem total_nonnegative_witness:
  "valid_config builtin page_B \<and> nonneg_rates builtin \<and>
   (\<exists>p' T. calculate page_B = Inr p' \<and> shown (display_total p') = Num T \<and> 0 \<le> T)"
  using total_nonnegative [OF valid_page_B] valid_page_B by (intro conjI) simp_all

subsection \<open>The built-in tables\<close>

lemma discount_cases_mem:
  assumes "pt \<in> set (keys (basePrices R))" "ba \<in> set (keys (bathroomPrices R))"
    and "st \<in> set (keys (serviceAdjustments R))" "fr \<in> set (keys (frequencyDiscounts R))"
  shows "(spec_subtotal R pt ba st, listed_price (frequencyDiscounts R) fr) \<in> set (discount_cases R)"
  using listed_entry [OF assms(1)] listed_entry [OF assms(2)] listed_entry [OF assms(3)]
    listed_entry [OF assms(4)]
  unfolding discount_cases_def spec_subtotal_def
  by (simp only: set_concat set_map) (auto intro!: bexI)

lemma builtin_discount_cases:
  "list_all (\<lambda>(S, r). 1 / 50 \<le> half_margin (S * r) \<and> of_int \<lfloor>S\<rfloor> = S) (discount_cases builtin)"
  by code_simp

lemma half_margin_add_int: "half_margin (x + of_int n) = half_margin x"
  by (simp add: half_margin_def)

lemma half_margin_neg: "half_margin (- d) = half_margin d"
proof -
  define k where "k = \<lfloor>d\<rfloor>"
  have lo: "of_int k \<le> d" and hi: "d < of_int k + 1"
    unfolding k_def by linarith+
  show ?thesis
  proof (cases "d = of_int k")
    case True
    then have "\<lfloor>- d\<rfloor> = - k" by simp
    with True show ?thesis by (simp add: half_margin_def)
  next
    case False
    with lo have lt: "of_int k < d" by simp
    have "\<lfloor>- d\<rfloor> = - k - 1"
      by (rule floor_unique) (use lt hi in simp_all)
    then show ?thesis
      by (simp add: half_margin_def k_def [symmetric] abs_if)
  qed
qed

lemma builtin_addOns_entries: "entries_all (\<lambda>v. 0 < v \<and> v \<in> \<int>) (addOnPrices builtin)"
  by (simp add: entries_all_def builtin_def)

lemma builtin_addOns_int:
  assumes "S \<subseteq> set (keys (addOnPrices builtin))"
  shows "spec_addOns builtin S \<in> \<int>"
  unfolding spec_addOns_def
proof (rule Ints_sum)
  fix k assume "k \<in> S"
  with assms have "k \<in> set (keys (addOnPrices builtin))" by blast
  from entries_allD [OF builtin_addOns_entries this]
  show "listed_price (addOnPrices builtin) k \<in> \<int>" by simp
qed

lemma builtin_valid_facts:
  assumes "valid_config builtin p"
    and "propertyType p = Some pt" "bathrooms p = Some ba" "serviceType p = Some st"
    and "frequency p = Some fr"
  shows "1 / 50 \<le> half_margin (spec_discount builtin pt ba st fr)"
    and "spec_subtotal builtin pt ba st + spec_addOns builtin (checked p) \<in> \<int>"
proof -
  from assms(1) have
    ks: "known (basePrices builtin) (propertyType p)" "known (bathroomPrices builtin) (bathrooms p)"
      "known (serviceAdjustments builtin) (serviceType p)"
      "known (frequencyDiscounts builtin) (frequency p)"
    and sub: "checked p \<subseteq> set (keys (addOnPrices builtin))"
    by (simp_all add: valid_config_def)
  from ks assms(2-5) have k: "pt \<in> set (keys (basePrices builtin))"
    "ba \<in> set (keys (bathroomPrices builtin))" "st \<in> set (keys (serviceAdjustments builtin))"
    "fr \<in> set (keys (frequencyDiscounts builtin))"
    by (simp_all add: known_def)
  from discount_cases_mem [OF k] builtin_discount_cases
  have m: "1 / 50 \<le> half_margin (spec_subtotal builtin pt ba st *
      listed_price (frequencyDiscounts builtin) fr)"
    and i: "of_int \<lfloor>spec_subtotal builtin pt ba st\<rfloor> = spec_subtotal builtin pt ba st"
    by (auto simp: list_all_iff)
  from m show "1 / 50 \<le> half_margin (spec_discount builtin pt ba st fr)"
    by (simp add: spec_discount_def)
  from i have "spec_subtotal builtin pt ba st \<in> \<int>"
    by (metis Ints_of_int)
  with builtin_addOns_int [OF sub]
  show "spec_subtotal builtin pt ba st + spec_addOns builtin (checked p) \<in> \<int>"
    by (rule Ints_add [rotated])
qed

text \<open>On the built-in tables the discount and the raw total stay at least 1/50 away from
  every rounding boundary of \<^verbatim>\<open>Math.round\<close>.\<close>

lemma builtin_discount_clear_of_half:
  assumes "valid_config builtin p"
  shows "\<exists>c d. locals_of builtin p = Some c \<and> discount c = Num d \<and> 1 / 50 \<le> half_margin d"
proof -
  from valid_configD [OF assms] obtain pt ba st fr where
    s: "propertyType p = Some pt" "bathrooms p = Some ba" "serviceType p = Some st"
      "frequency p = Some fr"
    by metis
  show ?thesis
    using builtin_valid_facts(1) [OF assms s]
    by (simp add: locals_of_valid [OF wf_builtin assms s])
qed

lemma builtin_total_clear_of_half:
  assumes "valid_config builtin p"
  shows "\<exists>c raw. locals_of builtin p = Some c \<and> total c = Num raw \<and> 1 / 50 \<le> half_margin raw"
proof -
  from valid_configD [OF assms] obtain pt ba st fr where
    s: "propertyType p = Some pt" "bathrooms p = Some ba" "serviceType p = Some st"
      "frequency p = Some fr"
    by metis
  from builtin_valid_facts(2) [OF assms s] obtain n where
    n: "spec_subtotal builtin pt ba st + spec_addOns builtin (checked p) = of_int n"
    by (auto elim: Ints_cases)
  have "spec_rawTotal builtin pt ba st fr (checked p) =
      - spec_discount builtin pt ba st fr + of_int n"
    by (simp add: spec_rawTotal_def n)
  then have "half_margin (spec_rawTotal builtin pt ba st fr (checked p)) =
      half_margin (spec_discount builtin pt ba st fr)"
    by (simp only: half_margin_add_int half_margin_neg)
  with builtin_valid_facts(1) [OF assms s] show ?thesis
    by (simp add: locals_of_valid [OF wf_builtin assms s])
qed

subsection \<open>The displayed items against the displayed total\<close>

lemma builtin_gap_zero:
  assumes "valid_config builtin p"
  shows "\<exists>p'. calculate p = Inr p' \<and> itemized_gap p' = Some 0"
proof -
  from valid_configD [OF assms] obtain pt ba st fr where
    s: "propertyType p = Some pt" "bathrooms p = Some ba" "serviceType p = Some st"
      "frequency p = Some fr"
    by metis
  let ?d = "spec_discount builtin pt ba st fr"
  from builtin_valid_facts(2) [OF assms s] obtain n where
    n: "spec_subtotal builtin pt ba st + spec_addOns builtin (checked p) = of_int n"
    by (auto elim: Ints_cases)
  from builtin_valid_facts(1) [OF assms s] have "half_margin ?d \<noteq> 0" by simp
  then have neg: "round_half_up (- ?d) = - round_half_up ?d"
    by (rule round_half_up_neg)
  have "spec_rawTotal builtin pt ba st fr (checked p) = - ?d + of_int n"
    by (simp add: spec_rawTotal_def n)
  then have r: "round_half_up (spec_rawTotal builtin pt ba st fr (checked p)) =
      n - round_half_up ?d"
    by (simp only: round_half_up_add_int neg)
  have "listed_price (basePrices builtin) pt + listed_price (bathroomPrices builtin) ba +
      listed_price (serviceAdjustments builtin) st + spec_addOns builtin (checked p) = of_int n"
    using n by (simp add: spec_subtotal_def)
  then show ?thesis
    by (simp add: calculate_def calculate_with_valid [OF wf_builtin assms s] itemized_gap_def
        shown_def r)
qed

text \<open>
  C10 (amended). On every valid configuration of \<^verbatim>\<open>calculate\<close> the displayed items,
  base plus service adjustment plus add-ons minus the displayed discount, sum to the
  displayed total exactly: the difference is always 0. Every price of the built-in tables
  is an integer and no discount ends in one half, so rounding the discount and rounding
  the total move by the same amount.
\<close>

theorem builtin_items_sum_exactly:
  assumes "valid_config builtin p"
  shows "\<exists>p'. calculate p = Inr p' \<and> itemized_gap p' = Some 0"
  using assms by (rule builtin_gap_zero)

theorem builtin_items_sum_exactly_witness:
  "valid_config builtin page_B \<and>
   (\<exists>p'. calculate page_B = Inr p' \<and> itemized_gap p' = Some 0)"
  using builtin_items_sum_exactly [OF valid_page_B] valid_page_B by (intro conjI)

text \<open>
  Counterexample to C10 as stated: no valid configuration of \<^verbatim>\<open>calculate\<close> shows items
  that differ from the displayed total.
\<close>

theorem builtin_items_always_sum:
  "\<not> (\<exists>p p'. valid_config builtin p \<and> calculate p = Inr p' \<and> itemized_gap p' \<noteq> Some 0)"
  using builtin_gap_zero by fastforce

subsection \<open>Adding an add-on\<close>

text \<open>
  C5. On a valid configuration, checking one more add-on of the table raises the add-on
  total by its listed price, which is positive, and raises the displayed total by
  exactly that price.
\<close>

theorem adding_addOn_raises_total_by_price:
  assumes "valid_config builtin p" and "k \<in> set (keys (addOnPrices builtin))"
    and "k \<notin> checked p"
  shows "\<exists>p' q' A T. calculate p = Inr p' \<and>
    calculate (p \<lparr> checked := insert k (checked p) \<rparr>) = Inr q' \<and>
    shown (display_addOns p') = Num A \<and> shown (display_total p') = Num T \<and>
    0 < listed_price (addOnPrices builtin) k \<and>
    shown (display_addOns q') = Num (A + listed_price (addOnPrices builtin) k) \<and>
    shown (display_total q') = Num (T + listed_price (addOnPrices builtin) k)"
proof -
  let ?q = "p \<lparr> checked := insert k (checked p) \<rparr>"
  let ?price = "listed_price (addOnPrices builtin) k"
  from valid_configD [OF assms(1)] obtain pt ba st fr where
    s: "propertyType p = Some pt" "bathrooms p = Some ba" "serviceType p = Some st"
      "frequency p = Some fr"
    and sub: "checked p \<subseteq> set (keys (addOnPrices builtin))"
    by metis
  have s': "propertyType ?q = Some pt" "bathrooms ?q = Some ba" "serviceType ?q = Some st"
    "frequency ?q = Some fr" and c': "checked ?q = insert k (checked p)"
    using s by simp_all
  have v: "valid_config builtin ?q"
    using assms(1,2) by (simp add: valid_config_def elements_present_def)
  from sub have "finite (checked p)" by (rule finite_subset) simp
  with assms(3) have a: "spec_addOns builtin (insert k (checked p)) =
      spec_addOns builtin (checked p) + ?price"
    by (simp add: spec_addOns_def)
  from entries_allD [OF builtin_addOns_entries assms(2)]
  have pos: "0 < ?price" and "?price \<in> \<int>" by simp_all
  then obtain n where n: "?price = of_int n" by (auto elim: Ints_cases)
  have "spec_rawTotal builtin pt ba st fr (insert k (checked p)) =
      spec_rawTotal builtin pt ba st fr (checked p) + of_int n"
    by (simp add: spec_rawTotal_def a n)
  then have r: "round_half_up (spec_rawTotal builtin pt ba st fr (insert k (checked p))) =
      round_half_up (spec_rawTotal builtin pt ba st fr (checked p)) + n"
    by (simp only: round_half_up_add_int)
  note P = calculate_with_valid [OF wf_builtin assms(1) s]
  note Q = calculate_with_valid [OF wf_builtin v s', unfolded c' a r]
  show ?thesis
    using pos by (simp add: calculate_def P Q shown_def n)
qed

theorem adding_addOn_raises_total_by_price_witness:
  "valid_config builtin page_C \<and> ''laundry'' \<in> set (keys (addOnPrices builtin)) \<and>
   ''laundry'' \<notin> checked page_C \<and>
   (\<exists>p' q' A T. calculate page_C = Inr p' \<and>
    calculate (page_C \<lparr> checked := insert ''laundry'' (checked page_C) \<rparr>) = Inr q' \<and>
    shown (display_addOns p') = Num A \<and> shown (display_total p') = Num T \<and>
    shown (display_addOns q') = Num (A + 25) \<and> shown (display_total q') = Num (T + 25))"
proof -
  have k: "''laundry'' \<in> set (keys (addOnPrices builtin))"
    by (simp add: builtin_def keys_def)
  have c: "''laundry'' \<notin> checked page_C" by (simp add: page_C_def)
  have l: "listed_price (addOnPrices builtin) ''laundry'' = 25"
    by (simp add: listed_price_def builtin_def)
  from adding_addOn_raises_total_by_price [OF valid_page_C k c]
  show ?thesis unfolding l using k c valid_page_C by blast
qed

end
